theory Spec2Isabelle
  imports Main "HOL-Library.Word" "HOL-Library.Code_Target_Numeral"
begin

section \<open>The MPI wrapper header (mpiUtils.h)\<close>

subsection \<open>Type tags\<close>

text \<open>
  The enumeration \<open>MpiType\<close> of the header, in declaration order.
\<close>

datatype MpiType =
    kBYTE | kHALF | kFLOAT | kDOUBLE | kBOOL | kINT8 | kUINT8 | kINT32 | kUINT32
  | kINT64 | kUINT64 | kFP8 | kBF16 | kCHAR

text \<open>
  The enumeration \<open>MpiOp\<close> of the header, in declaration order. Four of its names
  are taken in Isabelle and carry a suffix.
\<close>

datatype MpiOp =
    NULLOP | MAX_op | MIN_op | SUM_op | PROD_op | LAND | BAND | LOR | BOR | LXOR | BXOR
  | MINLOC | MAXLOC | REPLACE

text \<open>
  The C++ types the header's templates are instantiated at. The first fourteen are
  the types \<open>MpiTypeConverter\<close> is specialised for. \<open>Other_fundamental\<close> stands for
  any further fundamental type (\<open>short\<close>, \<open>long double\<close>, \<open>wchar_t\<close>, ...) and
  \<open>Class_type\<close> for any class, union or enumeration type; both carry a name and
  the value of \<open>sizeof\<close>.
\<close>

datatype base_type =
    T_std_byte | T_half | T_float | T_double | T_bool | T_int8_t | T_uint8_t
  | T_int32_t | T_uint32_t | T_int64_t | T_uint64_t | T_char
  | T_nv_fp8_e4m3 | T_nv_bfloat16
  | Other_fundamental string nat
  | Class_type string nat

datatype cv_qualifier = cv_none | cv_const | cv_volatile | cv_const_volatile

datatype cpp_type = Qualified cv_qualifier base_type

fun remove_cv_t :: "cpp_type \<Rightarrow> cpp_type" where
  "remove_cv_t (Qualified q b) = Qualified cv_none b"

text \<open>
  The two preprocessor switches that guard the last two specialisations.
\<close>

record build_flags =
  ENABLE_FP8 :: bool
  ENABLE_BF16 :: bool

text \<open>
  \<open>MpiTypeConverter<T>::value\<close>. The primary template is empty, so a type with no
  specialisation (a cv-qualified type among them) has no \<open>value\<close>: \<open>None\<close>.
\<close>

fun MpiTypeConverter :: "build_flags \<Rightarrow> cpp_type \<Rightarrow> MpiType option" where
  "MpiTypeConverter F (Qualified cv_none T_std_byte) = Some kBYTE"
| "MpiTypeConverter F (Qualified cv_none T_half) = Some kHALF"
| "MpiTypeConverter F (Qualified cv_none T_float) = Some kFLOAT"
| "MpiTypeConverter F (Qualified cv_none T_double) = Some kDOUBLE"
| "MpiTypeConverter F (Qualified cv_none T_bool) = Some kBOOL"
| "MpiTypeConverter F (Qualified cv_none T_int8_t) = Some kINT8"
| "MpiTypeConverter F (Qualified cv_none T_uint8_t) = Some kUINT8"
| "MpiTypeConverter F (Qualified cv_none T_int32_t) = Some kINT32"
| "MpiTypeConverter F (Qualified cv_none T_uint32_t) = Some kUINT32"
| "MpiTypeConverter F (Qualified cv_none T_int64_t) = Some kINT64"
| "MpiTypeConverter F (Qualified cv_none T_uint64_t) = Some kUINT64"
| "MpiTypeConverter F (Qualified cv_none T_char) = Some kCHAR"
| "MpiTypeConverter F (Qualified cv_none T_nv_fp8_e4m3) =
     (if ENABLE_FP8 F then Some kFP8 else None)"
| "MpiTypeConverter F (Qualified cv_none T_nv_bfloat16) =
     (if ENABLE_BF16 F then Some kBF16 else None)"
| "MpiTypeConverter F (Qualified q b) = None"

text \<open>
  The types the header specialises \<open>MpiTypeConverter\<close> for under the build flags.
\<close>

definition supported_types :: "build_flags \<Rightarrow> cpp_type list" where
  "supported_types F =
     map (Qualified cv_none)
       ([T_std_byte, T_half, T_float, T_double, T_bool, T_int8_t, T_uint8_t,
         T_int32_t, T_uint32_t, T_int64_t, T_uint64_t, T_char]
        @ (if ENABLE_FP8 F then [T_nv_fp8_e4m3] else [])
        @ (if ENABLE_BF16 F then [T_nv_bfloat16] else []))"

subsection \<open>The communicator object\<close>

text \<open>
  \<open>MPI_Comm\<close> is the native library's opaque communicator handle; the header only
  stores it, passes it on and compares it.
\<close>

type_synonym MPI_Comm = nat

record MpiComm =
  mComm :: MPI_Comm
  mFreeComm :: bool

definition MpiComm_eq :: "MpiComm \<Rightarrow> MpiComm \<Rightarrow> bool" where
  "MpiComm_eq self rhs = (mComm self = mComm rhs)"

definition MpiComm_neq :: "MpiComm \<Rightarrow> MpiComm \<Rightarrow> bool" where
  "MpiComm_neq self rhs = (\<not> MpiComm_eq rhs self)"

subsection \<open>Failures\<close>

text \<open>
  How a call can end other than by returning: the process aborts with a diagnostic
  (a format string and its arguments), \<open>vector::resize\<close> throws
  \<open>std::length_error\<close> or \<open>std::bad_alloc\<close>, or the template has no valid
  instantiation at the type and the program does not compile.
\<close>

datatype printf_arg = Arg_string string | Arg_int int

datatype failure =
    Abort string "printf_arg list"
  | Length_error
  | Bad_alloc
  | Ill_formed

text \<open>
  Modelled from the spec: the macros \<open>TLLM_CHECK\<close> and \<open>TLLM_CHECK_WITH_INFO\<close> come
  from common/assert.h, which is not among the sources. A check that fails aborts the
  process with a diagnostic message; a check that holds does nothing.
\<close>

definition TLLM_CHECK_WITH_INFO ::
  "bool \<Rightarrow> string \<Rightarrow> printf_arg list \<Rightarrow> failure + unit" where
  "TLLM_CHECK_WITH_INFO val info args = (if val then Inr () else Inl (Abort info args))"

definition TLLM_CHECK :: "bool \<Rightarrow> string \<Rightarrow> failure + unit" where
  "TLLM_CHECK val expr = TLLM_CHECK_WITH_INFO val expr []"

text \<open>
  Modelled from the spec: \<open>MPI_SUCCESS\<close> is a constant of the native library's
  mpi.h. The spec's policy is abort on a non-zero return code, so the success code
  is zero.
\<close>

definition MPI_SUCCESS :: int where
  "MPI_SUCCESS = 0"

text \<open>
  The macro \<open>TLLM_MPI_CHECK(cmd)\<close>, with \<open>e\<close> the value of \<open>cmd\<close>. \<open>__FILE__\<close> and
  \<open>__LINE__\<close> are those of the place where the macro is used.
\<close>

definition TLLM_MPI_CHECK :: "string \<Rightarrow> int \<Rightarrow> int \<Rightarrow> failure + unit" where
  "TLLM_MPI_CHECK file line e =
     TLLM_CHECK_WITH_INFO (e = MPI_SUCCESS)
       (''Failed: MPI error %s:%d '' @ [CHR 0x27] @ ''%d'' @ [CHR 0x27])
       [Arg_string file, Arg_int line, Arg_int e]"

definition MPICHECK :: "string \<Rightarrow> int \<Rightarrow> int \<Rightarrow> failure + unit" where
  "MPICHECK file line e = TLLM_MPI_CHECK file line e"

subsection \<open>Requests\<close>

type_synonym MPI_Request = nat

record MpiRequest =
  mRequest :: MPI_Request

text \<open>
  \<open>MpiRequest::wait\<close>. The native \<open>MPI_Wait\<close> is the parameter: from the request handle
  it gives its return code and the handle it leaves behind. The body calls it and
  drops the return code.
\<close>

definition MpiRequest_wait ::
  "(MPI_Request \<Rightarrow> int \<times> MPI_Request) \<Rightarrow> MpiRequest \<Rightarrow> failure + MpiRequest" where
  "MpiRequest_wait MPI_Wait self =
     (case MPI_Wait (mRequest self) of (e, request) \<Rightarrow> Inr (self\<lparr>mRequest := request\<rparr>))"

subsection \<open>Buffers\<close>

text \<open>
  \<open>runtime::MemoryType\<close> and \<open>runtime::IBuffer\<close> are declared in common/iBuffer.h,
  outside the sources. The header names one enumerator, \<open>kGPU\<close>, and three
  accessors of a buffer.
\<close>

datatype MemoryType = kGPU | Other_memory nat

record IBuffer =
  data :: nat
  getSizeInBytes :: nat
  getMemoryType :: MemoryType

text \<open>
  What a \<open>void*\<close> argument points to: the local \<open>vecSize\<close>, the referenced
  \<open>value\<close>, the storage of the vector, or the storage of a buffer at an address.
\<close>

datatype buffer = Addr_vecSize | Addr_value | Vec_data | Buf_data nat

subsection \<open>Out-of-line members\<close>

text \<open>
  The members the header declares and a source file outside the sources defines. A
  call of one is an event: the receiving communicator's handle and the arguments, in
  the order of the declaration.
\<close>

datatype member_call =
    Call_getRank MPI_Comm
  | Call_getSize MPI_Comm
  | Call_split MPI_Comm int int
  | Call_bcastAsync MPI_Comm buffer nat MpiType int
  | Call_bcast MPI_Comm buffer nat MpiType int
  | Call_send MPI_Comm buffer nat MpiType int int
  | Call_recv MPI_Comm buffer nat MpiType int int
  | Call_allreduce MPI_Comm buffer buffer int MpiType MpiOp
  | Call_allgather MPI_Comm buffer buffer int MpiType
  | Call_barrier MPI_Comm
  | Call_mprobe MPI_Comm int int buffer buffer

type_synonym MPI_Status = nat

text \<open>
  Their behaviour is a parameter: whether a call ends in a failure, and what the
  calls with a result return.
\<close>

record members =
  fails :: "member_call \<Rightarrow> failure option"
  getRank_result :: int
  bcastAsync_result :: MpiRequest
  recv_result :: MPI_Status

text \<open>
  A run gives the calls made, in order, and either the failure that ended it or the
  result.
\<close>

type_synonym 'r run = "member_call list \<times> (failure + 'r)"

definition done_run :: "'r \<Rightarrow> 'r run" where
  "done_run r = ([], Inr r)"

definition failed_run :: "failure \<Rightarrow> 'r run" where
  "failed_run f = ([], Inl f)"

definition checked :: "failure + 'r \<Rightarrow> 'r run" where
  "checked c = ([], c)"

definition then_run :: "'r run \<Rightarrow> ('r \<Rightarrow> 's run) \<Rightarrow> 's run" where
  "then_run m k =
     (case m of
        (t, Inl f) \<Rightarrow> (t, Inl f)
      | (t, Inr r) \<Rightarrow> (case k r of (t', x) \<Rightarrow> (t @ t', x)))"

definition call_member :: "members \<Rightarrow> member_call \<Rightarrow> 'r \<Rightarrow> 'r run" where
  "call_member N c r = ([c], case fails N c of Some f \<Rightarrow> Inl f | None \<Rightarrow> Inr r)"

definition MpiComm_getRank :: "members \<Rightarrow> MpiComm \<Rightarrow> int run" where
  "MpiComm_getRank N self = call_member N (Call_getRank (mComm self)) (getRank_result N)"

definition MpiComm_bcastAsync ::
  "members \<Rightarrow> MpiComm \<Rightarrow> buffer \<Rightarrow> nat \<Rightarrow> MpiType \<Rightarrow> int \<Rightarrow> MpiRequest run" where
  "MpiComm_bcastAsync N self buf count dtype root =
     call_member N (Call_bcastAsync (mComm self) buf count dtype root) (bcastAsync_result N)"

definition MpiComm_bcast ::
  "members \<Rightarrow> MpiComm \<Rightarrow> buffer \<Rightarrow> nat \<Rightarrow> MpiType \<Rightarrow> int \<Rightarrow> unit run" where
  "MpiComm_bcast N self buf count dtype root =
     call_member N (Call_bcast (mComm self) buf count dtype root) ()"

definition MpiComm_send ::
  "members \<Rightarrow> MpiComm \<Rightarrow> buffer \<Rightarrow> nat \<Rightarrow> MpiType \<Rightarrow> int \<Rightarrow> int \<Rightarrow> unit run" where
  "MpiComm_send N self buf count dtype dest tag =
     call_member N (Call_send (mComm self) buf count dtype dest tag) ()"

definition MpiComm_recv ::
  "members \<Rightarrow> MpiComm \<Rightarrow> buffer \<Rightarrow> nat \<Rightarrow> MpiType \<Rightarrow> int \<Rightarrow> int \<Rightarrow> MPI_Status run" where
  "MpiComm_recv N self buf count dtype source tag =
     call_member N (Call_recv (mComm self) buf count dtype source tag) (recv_result N)"

subsection \<open>The native library under the out-of-line members\<close>

text \<open>
  \<open>getMpiDtype\<close> is declared in the header and defined elsewhere: the table from a
  tag to the native data type is a parameter, as are the return codes of the native
  library and the places of the checks in the source file outside the sources.
\<close>

type_synonym MPI_Datatype = nat

text \<open>
  A call into the native library: the handle and arguments of the member that makes
  it, and the native data type its tag was looked up to.
\<close>

datatype native_call = Native member_call "MPI_Datatype option"

record native_lib =
  getMpiDtype :: "MpiType \<Rightarrow> MPI_Datatype"
  return_code :: "native_call \<Rightarrow> int"
  check_file :: string
  check_line :: "member_call \<Rightarrow> int"

fun tag_of :: "member_call \<Rightarrow> MpiType option" where
  "tag_of (Call_bcastAsync c buf count dtype root) = Some dtype"
| "tag_of (Call_bcast c buf count dtype root) = Some dtype"
| "tag_of (Call_send c buf count dtype dest tag) = Some dtype"
| "tag_of (Call_recv c buf count dtype source tag) = Some dtype"
| "tag_of (Call_allreduce c sendbuf recvbuf count dtype op) = Some dtype"
| "tag_of (Call_allgather c sendbuf recvbuf count dtype) = Some dtype"
| "tag_of c = None"

text \<open>
  Modelled from the spec: the bodies of the out-of-line members (\<open>getRank\<close>,
  \<open>getSize\<close>, \<open>split\<close>, \<open>bcastAsync\<close>, \<open>bcast\<close>, \<open>send\<close>, \<open>recv\<close>, \<open>allreduce\<close>,
  \<open>allgather\<close>, \<open>barrier\<close>, \<open>mprobe\<close>) are not among the sources. Every method in
  the communicator wrapper consists of a type-tag lookup followed by a single
  forwarding call into the native library, with uniform error handling: abort on a
  non-zero return code.
\<close>

definition forwarded :: "native_lib \<Rightarrow> member_call \<Rightarrow> native_call" where
  "forwarded L c = Native c (map_option (getMpiDtype L) (tag_of c))"

definition out_of_line :: "native_lib \<Rightarrow> member_call \<Rightarrow> native_call list \<times> (failure + unit)" where
  "out_of_line L c =
     ([forwarded L c],
      MPICHECK (check_file L) (check_line L c) (return_code L (forwarded L c)))"

text \<open>
  The out-of-line members over a native library: a call fails when its check does.
\<close>

definition with_native :: "native_lib \<Rightarrow> members \<Rightarrow> members" where
  "with_native L N =
     N\<lparr>fails := (\<lambda>c. case snd (out_of_line L c) of Inl f \<Rightarrow> Some f | Inr u \<Rightarrow> None)\<rparr>"

text \<open>
  A run seen from the native library: the native calls of its member calls, and how
  it ended.
\<close>

definition native_run :: "native_lib \<Rightarrow> 'r run \<Rightarrow> native_call list \<times> (failure + unit)" where
  "native_run L run =
     (concat (map (\<lambda>c. fst (out_of_line L c)) (fst run)), map_sum id (\<lambda>r. ()) (snd run))"

subsection \<open>Inline members: buffers\<close>

text \<open>
  The overloads over a \<open>runtime::IBuffer\<close>. Three of them check the memory type
  first; the blocking \<open>bcast\<close> does not. Each forwards the buffer's storage and
  its size in bytes with the tag \<open>kBYTE\<close>.
\<close>

definition bcastAsync_IBuffer :: "members \<Rightarrow> MpiComm \<Rightarrow> IBuffer \<Rightarrow> int \<Rightarrow> MpiRequest run" where
  "bcastAsync_IBuffer N self buf root =
     then_run
       (checked (TLLM_CHECK (getMemoryType buf \<noteq> kGPU)
          ''buf.getMemoryType() != runtime::MemoryType::kGPU''))
       (\<lambda>_. MpiComm_bcastAsync N self (Buf_data (data buf)) (getSizeInBytes buf) kBYTE root)"

definition bcast_IBuffer :: "members \<Rightarrow> MpiComm \<Rightarrow> IBuffer \<Rightarrow> int \<Rightarrow> unit run" where
  "bcast_IBuffer N self buf root =
     MpiComm_bcast N self (Buf_data (data buf)) (getSizeInBytes buf) kBYTE root"

definition send_IBuffer :: "members \<Rightarrow> MpiComm \<Rightarrow> IBuffer \<Rightarrow> int \<Rightarrow> int \<Rightarrow> unit run" where
  "send_IBuffer N self buf dest tag =
     then_run
       (checked (TLLM_CHECK (getMemoryType buf \<noteq> kGPU)
          ''buf.getMemoryType() != runtime::MemoryType::kGPU''))
       (\<lambda>_. MpiComm_send N self (Buf_data (data buf)) (getSizeInBytes buf) kBYTE dest tag)"

definition recv_IBuffer :: "members \<Rightarrow> MpiComm \<Rightarrow> IBuffer \<Rightarrow> int \<Rightarrow> int \<Rightarrow> MPI_Status run" where
  "recv_IBuffer N self buf source tag =
     then_run
       (checked (TLLM_CHECK (getMemoryType buf \<noteq> kGPU)
          ''buf.getMemoryType() != runtime::MemoryType::kGPU''))
       (\<lambda>_. MpiComm_recv N self (Buf_data (data buf)) (getSizeInBytes buf) kBYTE source tag)"

subsection \<open>Inline members: values\<close>

text \<open>
  \<open>std::is_fundamental_v\<close>: the arithmetic types, \<open>void\<close> and \<open>std::nullptr_t\<close>,
  with or without cv-qualifiers. \<open>std::byte\<close> is an enumeration, and \<open>half\<close>,
  \<open>__nv_fp8_e4m3\<close> and \<open>__nv_bfloat16\<close> are classes of the CUDA headers.
\<close>

fun is_fundamental_v :: "cpp_type \<Rightarrow> bool" where
  "is_fundamental_v (Qualified q T_std_byte) = False"
| "is_fundamental_v (Qualified q T_half) = False"
| "is_fundamental_v (Qualified q T_nv_fp8_e4m3) = False"
| "is_fundamental_v (Qualified q T_nv_bfloat16) = False"
| "is_fundamental_v (Qualified q (Class_type name n)) = False"
| "is_fundamental_v (Qualified q b) = True"

text \<open>
  \<open>sizeof\<close>, which ignores cv-qualifiers, with the sizes of the platforms CUDA
  builds for.
\<close>

fun sizeof :: "cpp_type \<Rightarrow> nat" where
  "sizeof (Qualified q T_std_byte) = 1"
| "sizeof (Qualified q T_half) = 2"
| "sizeof (Qualified q T_float) = 4"
| "sizeof (Qualified q T_double) = 8"
| "sizeof (Qualified q T_bool) = 1"
| "sizeof (Qualified q T_int8_t) = 1"
| "sizeof (Qualified q T_uint8_t) = 1"
| "sizeof (Qualified q T_int32_t) = 4"
| "sizeof (Qualified q T_uint32_t) = 4"
| "sizeof (Qualified q T_int64_t) = 8"
| "sizeof (Qualified q T_uint64_t) = 8"
| "sizeof (Qualified q T_char) = 1"
| "sizeof (Qualified q T_nv_fp8_e4m3) = 1"
| "sizeof (Qualified q T_nv_bfloat16) = 2"
| "sizeof (Qualified q (Other_fundamental name n)) = n"
| "sizeof (Qualified q (Class_type name n)) = n"

text \<open>
  The address of a \<open>T\<close> converts to \<open>void*\<close> only when \<open>T\<close> has no cv-qualifier,
  and the address of a \<open>T const\<close> converts to \<open>void const*\<close> only when \<open>T\<close> is not
  volatile. Where it does not, the call in the template's body has no match.
\<close>

fun to_void_ptr :: "cpp_type \<Rightarrow> bool" where
  "to_void_ptr (Qualified q b) = (q = cv_none)"

fun to_const_void_ptr :: "cpp_type \<Rightarrow> bool" where
  "to_const_void_ptr (Qualified q b) = (q = cv_none \<or> q = cv_const)"

text \<open>
  The three templates over a value. What the call leaves in \<open>value\<close> is not followed.
\<close>

definition bcastValue :: "build_flags \<Rightarrow> members \<Rightarrow> MpiComm \<Rightarrow> cpp_type \<Rightarrow> int \<Rightarrow> unit run" where
  "bcastValue F N self T root =
     (if \<not> to_void_ptr T then failed_run Ill_formed
      else if is_fundamental_v (remove_cv_t T) then
        (case MpiTypeConverter F (remove_cv_t T) of
           None \<Rightarrow> failed_run Ill_formed
         | Some dtype \<Rightarrow> MpiComm_bcast N self Addr_value 1 dtype root)
      else MpiComm_bcast N self Addr_value (sizeof T) kBYTE root)"

definition send_value ::
  "build_flags \<Rightarrow> members \<Rightarrow> MpiComm \<Rightarrow> cpp_type \<Rightarrow> int \<Rightarrow> int \<Rightarrow> unit run" where
  "send_value F N self T dest tag =
     (if \<not> to_const_void_ptr T then failed_run Ill_formed
      else if is_fundamental_v (remove_cv_t T) then
        (case MpiTypeConverter F (remove_cv_t T) of
           None \<Rightarrow> failed_run Ill_formed
         | Some dtype \<Rightarrow> MpiComm_send N self Addr_value 1 dtype dest tag)
      else MpiComm_send N self Addr_value (sizeof T) kBYTE dest tag)"

definition recv_value ::
  "build_flags \<Rightarrow> members \<Rightarrow> MpiComm \<Rightarrow> cpp_type \<Rightarrow> int \<Rightarrow> int \<Rightarrow> MPI_Status run" where
  "recv_value F N self T source tag =
     (if \<not> to_void_ptr T then failed_run Ill_formed
      else if is_fundamental_v (remove_cv_t T) then
        (case MpiTypeConverter F (remove_cv_t T) of
           None \<Rightarrow> failed_run Ill_formed
         | Some dtype \<Rightarrow> MpiComm_recv N self Addr_value 1 dtype source tag)
      else MpiComm_recv N self Addr_value (sizeof T) kBYTE source tag)"

subsection \<open>Inline members: vectors\<close>

text \<open>
  \<open>std::vector<T>::resize(n)\<close>: throws \<open>std::length_error\<close> beyond \<open>max_size()\<close>;
  growing past the size may need new storage and throws \<open>std::bad_alloc\<close> when the
  allocator cannot give it (\<open>allocates n\<close> says whether storage for \<open>n\<close> elements is
  to be had; the capacity is not followed, so it is asked at every growth);
  otherwise cuts the vector or fills it up with value-initialised elements.
\<close>

definition vector_resize ::
  "nat \<Rightarrow> (nat \<Rightarrow> bool) \<Rightarrow> 'a \<Rightarrow> 'a list \<Rightarrow> nat \<Rightarrow> failure + 'a list" where
  "vector_resize max_size allocates value_init vec n =
     (if max_size < n then Inl Length_error
      else if length vec < n \<and> \<not> allocates n then Inl Bad_alloc
      else Inr (take n vec @ replicate (n - length vec) value_init))"

text \<open>
  Writing through \<open>vec.data()\<close> changes elements and never the size.
\<close>

definition store_elems :: "'a list \<Rightarrow> 'a list \<Rightarrow> 'a list" where
  "store_elems new vec = take (length vec) (new @ drop (length new) vec)"

text \<open>
  \<open>std::int64_t\<close> and \<open>std::size_t\<close> are 64 bits wide; \<open>sint\<close> reads the first,
  \<open>unat\<close> the second. A conversion between them keeps the bits, so
  \<open>static_cast<int64_t>(vec.size())\<close> is \<open>of_nat (length vec)\<close> and the argument
  of \<open>vec.resize(vecSize)\<close> is \<open>unat vecSize\<close>.
\<close>

type_synonym int64_t = "64 word"

text \<open>
  What surrounds a broadcast of a vector on one rank: the value of \<open>T()\<close>, the
  vector's \<open>max_size()\<close>, its allocator, and what a broadcast leaves in the local
  \<open>vecSize\<close> and in the vector's storage, each as a function of the count and tag
  of the call and of what was there before.
\<close>

record 'a vector_ctx =
  value_init :: 'a
  max_size :: nat
  allocates :: "nat \<Rightarrow> bool"
  vecSize_after :: "nat \<Rightarrow> MpiType \<Rightarrow> int64_t \<Rightarrow> int64_t"
  storage_after :: "nat \<Rightarrow> MpiType \<Rightarrow> 'a list \<Rightarrow> 'a list"

text \<open>
  A call of the out-of-line \<open>bcast\<close> on a buffer whose content is followed: the call
  with its count and tag, and then what it has left in the buffer.
\<close>

definition bcast_into ::
  "members \<Rightarrow> MpiComm \<Rightarrow> buffer \<Rightarrow> (nat \<Rightarrow> MpiType \<Rightarrow> 'b \<Rightarrow> 'b) \<Rightarrow> 'b \<Rightarrow> nat \<Rightarrow> MpiType
   \<Rightarrow> int \<Rightarrow> 'b run" where
  "bcast_into N self buf after content count dtype root =
     then_run (MpiComm_bcast N self buf count dtype root)
       (\<lambda>u. done_run (after count dtype content))"

text \<open>
  The template over \<open>std::vector<T>\<close> has an instance when \<open>T\<close> can be a vector's
  element type with a \<open>data()\<close> member (no cv-qualifier, not \<open>bool\<close>) and, for a
  fundamental \<open>T\<close>, \<open>MpiTypeConverter\<close> has a value.
\<close>

fun vector_has_data :: "cpp_type \<Rightarrow> bool" where
  "vector_has_data (Qualified q b) = (q = cv_none \<and> b \<noteq> T_bool)"

definition vector_instantiable :: "build_flags \<Rightarrow> cpp_type \<Rightarrow> bool" where
  "vector_instantiable F T =
     (vector_has_data T \<and>
      (if is_fundamental_v (remove_cv_t T) then MpiTypeConverter F (remove_cv_t T) \<noteq> None
       else True))"

definition bcast_vector ::
  "build_flags \<Rightarrow> members \<Rightarrow> 'a vector_ctx \<Rightarrow> MpiComm \<Rightarrow> cpp_type \<Rightarrow> 'a list \<Rightarrow> int
   \<Rightarrow> 'a list run" where
  "bcast_vector F N V self T vec root =
     (if \<not> vector_instantiable F T then failed_run Ill_formed
      else
        then_run (MpiComm_getRank N self) (\<lambda>rank.
          then_run
            (bcast_into N self Addr_vecSize (vecSize_after V)
               (if rank = root then (of_nat (length vec) :: int64_t) else 0)
               1 kINT64 root) (\<lambda>vecSize.
            then_run
              (checked (vector_resize (max_size V) (allocates V) (value_init V) vec
                 (unat vecSize))) (\<lambda>vec'.
              if is_fundamental_v (remove_cv_t T) then
                (case MpiTypeConverter F (remove_cv_t T) of
                   None \<Rightarrow> failed_run Ill_formed
                 | Some mpiType \<Rightarrow>
                     then_run
                       (bcast_into N self Vec_data (storage_after V) vec'
                          (length vec') mpiType root)
                       (\<lambda>stored. done_run (store_elems stored vec')))
              else
                then_run
                  (bcast_into N self Vec_data (storage_after V) vec'
                     ((length vec' * sizeof T) mod 2 ^ 64) kBYTE root)
                  (\<lambda>stored. done_run (store_elems stored vec'))))))"

text \<open>
  \<open>getRank\<close> and \<open>getSize\<close> ask the library about the communicator and move no
  data; every other out-of-line member is a communication call.
\<close>

fun is_communication :: "member_call \<Rightarrow> bool" where
  "is_communication (Call_getRank c) = False"
| "is_communication (Call_getSize c) = False"
| "is_communication c = True"

subsection \<open>A broadcast of a vector on all ranks\<close>

text \<open>
  Modelled from the spec: the size in bytes of an element of the native data type a
  tag stands for (the table \<open>getMpiDtype\<close> is not among the sources).
\<close>

fun MpiType_size :: "MpiType \<Rightarrow> nat" where
  "MpiType_size kBYTE = 1"
| "MpiType_size kHALF = 2"
| "MpiType_size kFLOAT = 4"
| "MpiType_size kDOUBLE = 8"
| "MpiType_size kBOOL = 1"
| "MpiType_size kINT8 = 1"
| "MpiType_size kUINT8 = 1"
| "MpiType_size kINT32 = 4"
| "MpiType_size kUINT32 = 4"
| "MpiType_size kINT64 = 8"
| "MpiType_size kUINT64 = 8"
| "MpiType_size kFP8 = 1"
| "MpiType_size kBF16 = 2"
| "MpiType_size kCHAR = 1"

text \<open>
  Modelled from the spec: what a broadcast does between the ranks is the native
  library's, reached through the out-of-line \<open>bcast\<close>, and neither is among the
  sources. A broadcast with a count and a tag covers \<open>count\<close> times the tag's size in
  bytes. On a rank other than the root it overwrites the whole elements that this
  covers, from the front of the receiving buffer and no further than its end, with
  the elements the root's buffer holds there; the rest of the buffer and its size
  stay as they were. On the root the buffer stays as it is.
\<close>

definition delivered :: "nat \<Rightarrow> nat \<Rightarrow> MpiType \<Rightarrow> 'b list \<Rightarrow> 'b list \<Rightarrow> 'b list" where
  "delivered elem_size count dtype sent local =
     (let n = (count * MpiType_size dtype) div elem_size in
      take (length local) (take n sent @ drop (min n (length sent)) local))"




subsection \<open>The declarations of the header\<close>

text \<open>
  Every function the header declares, with the class it belongs to, its kind and the
  types of its parameters as written. The copy constructor and copy assignment of
  \<open>MpiComm\<close> are deleted and the constructor and destructor of \<open>MpiRequest\<close> are
  defaulted; they are left out.
\<close>

datatype declared =
    D_getMpiDtype | D_initialize
  | D_MpiRequest_wait
  | D_MpiComm | D_MpiComm_destructor | D_MpiComm_move | D_move_assignment
  | D_getRank | D_getSize | D_operator_MPI_Comm | D_world | D_session | D_split
  | D_bcastAsync | D_bcastAsync_IBuffer | D_bcast | D_bcast_IBuffer | D_bcastValue
  | D_bcast_vector | D_send | D_send_IBuffer | D_send_value | D_recv | D_recv_IBuffer
  | D_recv_value | D_allreduce | D_allgather | D_barrier | D_mprobe
  | D_operator_eq | D_operator_neq

datatype scope = Namespace_scope | Class_MpiRequest | Class_MpiComm

fun scope_of :: "declared \<Rightarrow> scope" where
  "scope_of D_getMpiDtype = Namespace_scope"
| "scope_of D_initialize = Namespace_scope"
| "scope_of D_MpiRequest_wait = Class_MpiRequest"
| "scope_of d = Class_MpiComm"

datatype function_kind =
    Free_function | Constructor | Destructor | Move_assignment
  | Static_member | Const_member | Nonconst_member

fun kind_of :: "declared \<Rightarrow> function_kind" where
  "kind_of D_getMpiDtype = Free_function"
| "kind_of D_initialize = Free_function"
| "kind_of D_MpiRequest_wait = Nonconst_member"
| "kind_of D_MpiComm = Constructor"
| "kind_of D_MpiComm_destructor = Destructor"
| "kind_of D_MpiComm_move = Constructor"
| "kind_of D_move_assignment = Move_assignment"
| "kind_of D_world = Static_member"
| "kind_of D_session = Static_member"
| "kind_of d = Const_member"

fun parameters :: "declared \<Rightarrow> string list" where
  "parameters D_getMpiDtype = [''MpiType'']"
| "parameters D_initialize = [''MpiThreadSupport'']"
| "parameters D_MpiRequest_wait = []"
| "parameters D_MpiComm = [''MPI_Comm'', ''bool'']"
| "parameters D_MpiComm_destructor = []"
| "parameters D_MpiComm_move = [''MpiComm &&'']"
| "parameters D_move_assignment = [''MpiComm &&'']"
| "parameters D_getRank = []"
| "parameters D_getSize = []"
| "parameters D_operator_MPI_Comm = []"
| "parameters D_world = []"
| "parameters D_session = []"
| "parameters D_split = [''int'', ''int'']"
| "parameters D_bcastAsync = [''void *'', ''size_t'', ''MpiType'', ''int'']"
| "parameters D_bcastAsync_IBuffer = [''runtime::IBuffer &'', ''int'']"
| "parameters D_bcast = [''void *'', ''size_t'', ''MpiType'', ''int'']"
| "parameters D_bcast_IBuffer = [''runtime::IBuffer &'', ''int'']"
| "parameters D_bcastValue = [''T &'', ''int'']"
| "parameters D_bcast_vector = [''std::vector<T> &'', ''int'']"
| "parameters D_send = [''void const *'', ''std::size_t'', ''MpiType'', ''int'', ''int'']"
| "parameters D_send_IBuffer = [''runtime::IBuffer const &'', ''int'', ''int'']"
| "parameters D_send_value = [''T const &'', ''int'', ''int'']"
| "parameters D_recv = [''void *'', ''size_t'', ''MpiType'', ''int'', ''int'']"
| "parameters D_recv_IBuffer = [''runtime::IBuffer &'', ''int'', ''int'']"
| "parameters D_recv_value = [''T &'', ''int'', ''int'']"
| "parameters D_allreduce = [''void const *'', ''void *'', ''int'', ''MpiType'', ''MpiOp'']"
| "parameters D_allgather = [''void const *'', ''void *'', ''int'', ''MpiType'']"
| "parameters D_barrier = []"
| "parameters D_mprobe = [''int'', ''int'', ''MPI_Message *'', ''MPI_Status *'']"
| "parameters D_operator_eq = [''MpiComm const &'']"
| "parameters D_operator_neq = [''MpiComm const &'']"

subsection \<open>The life of a communicator object\<close>

text \<open>
  The fields of the receiving object after a call. Neither field is declared
  \<open>mutable\<close>, so a const member function leaves both as they are, and a static one
  has no receiving object. The constructors, the destructor and move assignment are
  defined outside the sources: what they make of the fields is the parameter \<open>body\<close>.
\<close>

definition fields_after ::
  "(declared \<Rightarrow> MpiComm \<Rightarrow> MpiComm) \<Rightarrow> declared \<Rightarrow> MpiComm \<Rightarrow> MpiComm" where
  "fields_after body d self =
     (case kind_of d of
        Const_member \<Rightarrow> self
      | Static_member \<Rightarrow> self
      | _ \<Rightarrow> body d self)"

text \<open>
  Modelled from the spec: the destructor \<open>~MpiComm\<close> is declared in the header and
  defined outside the sources. The ownership flag says whether this wrapper must
  release the communicator on destruction. The result lists the communicators the
  destructor releases.
\<close>

definition MpiComm_destructor :: "MpiComm \<Rightarrow> MPI_Comm list" where
  "MpiComm_destructor self = (if mFreeComm self then [mComm self] else [])"

subsection \<open>Thread support\<close>

datatype MpiThreadSupport =
  THREAD_SINGLE | THREAD_FUNNELED | THREAD_SERIALIZED | THREAD_MULTIPLE

text \<open>
  The four thread-support constants of mpi.h, whatever the native library makes them.
\<close>

record mpi_h =
  MPI_THREAD_SINGLE :: int
  MPI_THREAD_FUNNELED :: int
  MPI_THREAD_SERIALIZED :: int
  MPI_THREAD_MULTIPLE :: int

text \<open>The value of an enumerator in the underlying type \<open>int\<close>.\<close>

fun MpiThreadSupport_value :: "mpi_h \<Rightarrow> MpiThreadSupport \<Rightarrow> int" where
  "MpiThreadSupport_value H THREAD_SINGLE = MPI_THREAD_SINGLE H"
| "MpiThreadSupport_value H THREAD_FUNNELED = MPI_THREAD_FUNNELED H"
| "MpiThreadSupport_value H THREAD_SERIALIZED = MPI_THREAD_SERIALIZED H"
| "MpiThreadSupport_value H THREAD_MULTIPLE = MPI_THREAD_MULTIPLE H"

text \<open>
  The \<open>threadMode\<close> a call of \<open>initialize\<close> runs with: the argument, or the default
  of the declaration when the call gives none.
\<close>

fun initialize_threadMode :: "MpiThreadSupport option \<Rightarrow> MpiThreadSupport" where
  "initialize_threadMode None = THREAD_FUNNELED"
| "initialize_threadMode (Some threadMode) = threadMode"

section \<open>The build script (pre_build_script.sh)\<close>

text \<open>
  The part of the script that writes the module file: the pipeline
  \<open>cat toolchains/ci_workspaces/MODULE.bazel.tmpl | envsubst > MODULE.bazel\<close> and the
  \<open>cat MODULE.bazel\<close> after it. The state is the files of the working directory by
  path and what went to standard output. \<open>envsubst\<close> is a tool of gettext: what it
  makes of its input in the environment the script has at that line is a parameter.
  The script runs without \<open>set -e\<close>, so \<open>cat\<close> on a missing file writes nothing to
  the pipe and the pipeline goes on.
\<close>

record shell =
  files :: "string \<rightharpoonup> string"
  stdout :: "string list"

definition cat :: "shell \<Rightarrow> string \<Rightarrow> string" where
  "cat sh path = (case files sh path of None \<Rightarrow> [] | Some text \<Rightarrow> text)"

definition generate_MODULE_bazel :: "(string \<Rightarrow> string) \<Rightarrow> shell \<Rightarrow> shell" where
  "generate_MODULE_bazel envsubst sh =
     sh\<lparr>files := (files sh)(''MODULE.bazel'' \<mapsto>
           envsubst (cat sh ''toolchains/ci_workspaces/MODULE.bazel.tmpl''))\<rparr>"

definition cat_MODULE_bazel :: "shell \<Rightarrow> shell" where
  "cat_MODULE_bazel sh = sh\<lparr>stdout := stdout sh @ [cat sh ''MODULE.bazel'']\<rparr>"

definition write_module_file :: "(string \<Rightarrow> string) \<Rightarrow> shell \<Rightarrow> shell" where
  "write_module_file envsubst sh = cat_MODULE_bazel (generate_MODULE_bazel envsubst sh)"

section \<open>Properties\<close>

subsection \<open>Auxiliary facts about runs\<close>

lemmas member_defs =
  MpiComm_getRank_def MpiComm_bcastAsync_def MpiComm_bcast_def MpiComm_send_def
  MpiComm_recv_def

lemmas run_defs = done_run_def failed_run_def checked_def then_run_def call_member_def

lemmas check_defs = TLLM_CHECK_def TLLM_CHECK_WITH_INFO_def

lemma then_run_call:
  "then_run (call_member N c r) k =
     (case fails N c of Some f \<Rightarrow> ([c], Inl f) | None \<Rightarrow> (c # fst (k r), snd (k r)))"
  by (simp add: then_run_def call_member_def split: option.split prod.split)

lemma then_run_checked:
  "then_run (checked x) k = (case x of Inl f \<Rightarrow> ([], Inl f) | Inr r \<Rightarrow> k r)"
  by (simp add: then_run_def checked_def split: sum.split prod.split)

lemma then_run_bcast_into:
  "then_run (bcast_into N self buf after content count dtype root) k =
     (case fails N (Call_bcast (mComm self) buf count dtype root) of
        Some f \<Rightarrow> ([Call_bcast (mComm self) buf count dtype root], Inl f)
      | None \<Rightarrow>
          (Call_bcast (mComm self) buf count dtype root # fst (k (after count dtype content)),
           snd (k (after count dtype content))))"
  by (simp add: bcast_into_def MpiComm_bcast_def then_run_def call_member_def done_run_def
      split: option.split prod.split)

lemma length_store_elems: "length (store_elems new vec) = length vec"
  by (simp add: store_elems_def)





text \<open>
  The broadcast of a vector on one rank, call by call: the rank query, the broadcast of
  the length, the \<open>resize\<close>, the broadcast of the elements.
\<close>

lemma bcast_vector_unfold:
  "bcast_vector F N V self T vec root =
     (if \<not> vector_instantiable F T then ([], Inl Ill_formed)
      else case fails N (Call_getRank (mComm self)) of
        Some f \<Rightarrow> ([Call_getRank (mComm self)], Inl f)
      | None \<Rightarrow>
        (case fails N (Call_bcast (mComm self) Addr_vecSize 1 kINT64 root) of
           Some f \<Rightarrow> ([Call_getRank (mComm self),
                        Call_bcast (mComm self) Addr_vecSize 1 kINT64 root], Inl f)
         | None \<Rightarrow>
           (case vector_resize (max_size V) (allocates V) (value_init V) vec
                   (unat (vecSize_after V 1 kINT64
                      (if getRank_result N = root then of_nat (length vec) else 0))) of
              Inl f \<Rightarrow> ([Call_getRank (mComm self),
                          Call_bcast (mComm self) Addr_vecSize 1 kINT64 root], Inl f)
            | Inr vec' \<Rightarrow>
              (let count = (if is_fundamental_v (remove_cv_t T) then length vec'
                            else (length vec' * sizeof T) mod 2 ^ 64);
                   dtype = (case MpiTypeConverter F (remove_cv_t T) of
                              Some d \<Rightarrow> if is_fundamental_v (remove_cv_t T) then d else kBYTE
                            | None \<Rightarrow> kBYTE);
                   c = Call_bcast (mComm self) Vec_data count dtype root
               in ([Call_getRank (mComm self),
                    Call_bcast (mComm self) Addr_vecSize 1 kINT64 root, c],
                   case fails N c of
                     Some f \<Rightarrow> Inl f
                   | None \<Rightarrow> Inr (store_elems (storage_after V count dtype vec') vec'))))))"
  unfolding bcast_vector_def MpiComm_getRank_def then_run_call then_run_bcast_into
    then_run_checked Let_def
  by (simp add: vector_instantiable_def done_run_def failed_run_def
      split: option.split sum.split)

lemma bcast_vector_communications:
  "length (filter is_communication (fst (bcast_vector F N V self T vec root))) \<le> 2"
  by (simp add: bcast_vector_unfold Let_def split: option.split sum.split)

lemma bcast_vector_trace:
  assumes "snd (bcast_vector F N V self T vec root) = Inr v"
  shows "fst (bcast_vector F N V self T vec root) =
     [Call_getRank (mComm self), Call_bcast (mComm self) Addr_vecSize 1 kINT64 root,
      Call_bcast (mComm self) Vec_data
        (if is_fundamental_v (remove_cv_t T) then length v
         else (length v * sizeof T) mod 2 ^ 64)
        (case MpiTypeConverter F (remove_cv_t T) of
           Some d \<Rightarrow> if is_fundamental_v (remove_cv_t T) then d else kBYTE
         | None \<Rightarrow> kBYTE) root]"
  using assms
  by (auto simp: bcast_vector_unfold Let_def length_store_elems
      split: if_splits option.splits sum.splits)

text \<open>
  Seen from the native library, a call of an out-of-line member is that member's one
  native call and its check.
\<close>

lemma native_run_call_member:
  "native_run L (call_member (with_native L N) c r) = out_of_line L c"
  by (simp add: native_run_def call_member_def with_native_def out_of_line_def
      split: sum.split)

lemma native_run_failed: "native_run L ([], Inl f) = ([], Inl f)"
  by (simp add: native_run_def)

lemma fst_native_run: "fst (native_run L run) = map (forwarded L) (fst run)"
  by (induction "fst run" arbitrary: run) (simp_all add: native_run_def out_of_line_def)

lemma native_buffers:
  "native_run L (bcast_IBuffer (with_native L N) self buf root) =
     out_of_line L
       (Call_bcast (mComm self) (Buf_data (data buf)) (getSizeInBytes buf) kBYTE root)"
  "getMemoryType buf \<noteq> kGPU \<Longrightarrow>
   native_run L (bcastAsync_IBuffer (with_native L N) self buf root) =
     out_of_line L
       (Call_bcastAsync (mComm self) (Buf_data (data buf)) (getSizeInBytes buf) kBYTE root)"
  "getMemoryType buf \<noteq> kGPU \<Longrightarrow>
   native_run L (send_IBuffer (with_native L N) self buf dest tag) =
     out_of_line L
       (Call_send (mComm self) (Buf_data (data buf)) (getSizeInBytes buf) kBYTE dest tag)"
  "getMemoryType buf \<noteq> kGPU \<Longrightarrow>
   native_run L (recv_IBuffer (with_native L N) self buf source tag) =
     out_of_line L
       (Call_recv (mComm self) (Buf_data (data buf)) (getSizeInBytes buf) kBYTE source tag)"
  by (simp_all add: bcast_IBuffer_def bcastAsync_IBuffer_def send_IBuffer_def
      recv_IBuffer_def member_defs then_run_checked check_defs native_run_call_member)

lemma native_buffers_gpu:
  assumes "getMemoryType buf = kGPU"
  shows "fst (native_run L (bcastAsync_IBuffer (with_native L N) self buf root)) = []"
    and "fst (native_run L (send_IBuffer (with_native L N) self buf dest tag)) = []"
    and "fst (native_run L (recv_IBuffer (with_native L N) self buf source tag)) = []"
  using assms
  by (simp_all add: bcastAsync_IBuffer_def send_IBuffer_def recv_IBuffer_def
      then_run_checked check_defs native_run_failed)

lemma native_values_fundamental:
  assumes "is_fundamental_v (remove_cv_t T)"
    and "MpiTypeConverter F (remove_cv_t T) = Some dtype"
  shows "to_void_ptr T \<Longrightarrow>
      native_run L (bcastValue F (with_native L N) self T root) =
        out_of_line L (Call_bcast (mComm self) Addr_value 1 dtype root)"
    and "to_const_void_ptr T \<Longrightarrow>
      native_run L (send_value F (with_native L N) self T dest tag) =
        out_of_line L (Call_send (mComm self) Addr_value 1 dtype dest tag)"
    and "to_void_ptr T \<Longrightarrow>
      native_run L (recv_value F (with_native L N) self T source tag) =
        out_of_line L (Call_recv (mComm self) Addr_value 1 dtype source tag)"
  using assms
  by (simp_all add: bcastValue_def send_value_def recv_value_def member_defs
      native_run_call_member)

lemma native_values_other:
  assumes "\<not> is_fundamental_v (remove_cv_t T)"
  shows "to_void_ptr T \<Longrightarrow>
      native_run L (bcastValue F (with_native L N) self T root) =
        out_of_line L (Call_bcast (mComm self) Addr_value (sizeof T) kBYTE root)"
    and "to_const_void_ptr T \<Longrightarrow>
      native_run L (send_value F (with_native L N) self T dest tag) =
        out_of_line L (Call_send (mComm self) Addr_value (sizeof T) kBYTE dest tag)"
    and "to_void_ptr T \<Longrightarrow>
      native_run L (recv_value F (with_native L N) self T source tag) =
        out_of_line L (Call_recv (mComm self) Addr_value (sizeof T) kBYTE source tag)"
  using assms
  by (simp_all add: bcastValue_def send_value_def recv_value_def member_defs
      native_run_call_member)

lemma native_vector:
  assumes "snd (bcast_vector F N V self T vec root) = Inr v"
  shows "is_fundamental_v (remove_cv_t T) \<Longrightarrow>
      MpiTypeConverter F (remove_cv_t T) = Some dtype \<Longrightarrow>
      fst (native_run L (bcast_vector F N V self T vec root)) =
        [forwarded L (Call_getRank (mComm self)),
         forwarded L (Call_bcast (mComm self) Addr_vecSize 1 kINT64 root),
         forwarded L (Call_bcast (mComm self) Vec_data (length v) dtype root)]"
    and "\<not> is_fundamental_v (remove_cv_t T) \<Longrightarrow>
      fst (native_run L (bcast_vector F N V self T vec root)) =
        [forwarded L (Call_getRank (mComm self)),
         forwarded L (Call_bcast (mComm self) Addr_vecSize 1 kINT64 root),
         forwarded L (Call_bcast (mComm self) Vec_data
            ((length v * sizeof T) mod 2 ^ 64) kBYTE root)]"
  by (simp_all add: fst_native_run bcast_vector_trace [OF assms] split: option.split)

lemma MpiTypeConverter_cases:
  "MpiTypeConverter F T = Some t \<Longrightarrow>
   T = Qualified cv_none
     (case t of kBYTE \<Rightarrow> T_std_byte | kHALF \<Rightarrow> T_half | kFLOAT \<Rightarrow> T_float
      | kDOUBLE \<Rightarrow> T_double | kBOOL \<Rightarrow> T_bool | kINT8 \<Rightarrow> T_int8_t | kUINT8 \<Rightarrow> T_uint8_t
      | kINT32 \<Rightarrow> T_int32_t | kUINT32 \<Rightarrow> T_uint32_t | kINT64 \<Rightarrow> T_int64_t
      | kUINT64 \<Rightarrow> T_uint64_t | kFP8 \<Rightarrow> T_nv_fp8_e4m3 | kBF16 \<Rightarrow> T_nv_bfloat16
      | kCHAR \<Rightarrow> T_char)"
  by (erule MpiTypeConverter.elims) (auto split: if_splits)

lemma MpiTypeConverter_supported:
  "(MpiTypeConverter F T \<noteq> None) = (T \<in> set (supported_types F))"
  by (cases "(F, T)" rule: MpiTypeConverter.cases) (auto simp: supported_types_def)



lemma length_delivered: "length (delivered e count dtype sent local) = length local"
  by (simp add: delivered_def Let_def)







subsection \<open>Return codes of native calls\<close>

text \<open>
  C1. Every call of the native library is to abort the process on a return code
  other than the success value. \<open>MpiRequest::wait\<close> does not: with \<open>MPI_Wait\<close>
  returning the code 1 it returns normally, where the check \<open>MPICHECK\<close> on that
  code at that line of the header aborts with the diagnostic.
\<close>

theorem MpiRequest_wait_drops_return_code:
  "MpiRequest_wait (\<lambda>r. (1, 0)) \<lparr>mRequest = 5\<rparr> = Inr \<lparr>mRequest = 0\<rparr>
   \<and> MPICHECK ''mpiUtils.h'' 187 1 =
       Inl (Abort (''Failed: MPI error %s:%d '' @ [CHR 0x27] @ ''%d'' @ [CHR 0x27])
              [Arg_string ''mpiUtils.h'', Arg_int 187, Arg_int 1])"
  by (simp add: MpiRequest_wait_def MPICHECK_def TLLM_MPI_CHECK_def check_defs
      MPI_SUCCESS_def)

subsection \<open>Forwarding calls\<close>

text \<open>
  C2, as stated: no member issues more than one communication call. The broadcast
  of a vector of three \<open>int32_t\<close> from rank 0, run on rank 1 with an empty vector,
  issues more than one.
\<close>

theorem bcast_vector_issues_two_broadcasts:
  "\<not> length (filter is_communication (fst
       (bcast_vector \<lparr>ENABLE_FP8 = False, ENABLE_BF16 = False\<rparr>
          \<lparr>fails = (\<lambda>c. None), getRank_result = 1,
           bcastAsync_result = \<lparr>mRequest = 0\<rparr>, recv_result = 0\<rparr>
          \<lparr>value_init = 0 :: int, max_size = 1000, allocates = (\<lambda>n. True),
           vecSize_after = (\<lambda>count dtype local. 3),
           storage_after = (\<lambda>count dtype local. [7, 8, 9])\<rparr>
          \<lparr>mComm = 4, mFreeComm = False\<rparr>
          (Qualified cv_none T_int32_t) [] 0))) \<le> 1"
  by (simp add: bcast_vector_unfold vector_instantiable_def vector_resize_def
      store_elems_def Let_def)

text \<open>
  C2, amended. Every method of the communicator wrapper other than the broadcast of
  a vector consists of at most a memory-type check and a type-tag lookup followed by
  a single forwarding call into the native library, with abort on a return code
  other than success. For the out-of-line members (\<open>getRank\<close>, \<open>getSize\<close>, \<open>split\<close>,
  \<open>bcastAsync\<close>, \<open>bcast\<close>, \<open>send\<close>, \<open>recv\<close>, \<open>allreduce\<close>, \<open>allgather\<close>, \<open>barrier\<close>,
  \<open>mprobe\<close>) that is the native call of the member with its tag looked up. Seen from
  the native library, the blocking \<open>bcast\<close> of a buffer is the \<open>bcast\<close> of its
  storage; the other buffer overloads are the call of their member for a buffer that
  is not on the GPU and no call at all for one that is; a template over a value, at a
  type where it has an instance, is the call of its member with one element and the
  converter's tag, or \<open>sizeof(T)\<close> elements and \<open>kBYTE\<close>. The broadcast of a vector
  is a length-prefix exchange: it makes at most two communication calls, and one
  that returns \<open>v\<close> has made exactly the rank query, the broadcast of the length as
  one \<open>kINT64\<close> element, and the broadcast of the elements: \<open>length v\<close> of them with
  the converter's tag, or \<open>length v * sizeof(T)\<close> bytes.
\<close>

theorem wrapper_methods_forwarding:
  "out_of_line L c =
     ([forwarded L c],
      MPICHECK (check_file L) (check_line L c) (return_code L (forwarded L c)))
   \<and> forwarded L c = Native c (map_option (getMpiDtype L) (tag_of c))
   \<and> native_run L (bcast_IBuffer (with_native L N) self buf root) =
       out_of_line L
         (Call_bcast (mComm self) (Buf_data (data buf)) (getSizeInBytes buf) kBYTE root)
   \<and> (getMemoryType buf \<noteq> kGPU \<longrightarrow>
        native_run L (bcastAsync_IBuffer (with_native L N) self buf root) =
          out_of_line L
            (Call_bcastAsync (mComm self) (Buf_data (data buf)) (getSizeInBytes buf)
               kBYTE root)
      \<and> native_run L (send_IBuffer (with_native L N) self buf dest tag) =
          out_of_line L
            (Call_send (mComm self) (Buf_data (data buf)) (getSizeInBytes buf)
               kBYTE dest tag)
      \<and> native_run L (recv_IBuffer (with_native L N) self buf source tag) =
          out_of_line L
            (Call_recv (mComm self) (Buf_data (data buf)) (getSizeInBytes buf)
               kBYTE source tag))
   \<and> (getMemoryType buf = kGPU \<longrightarrow>
        fst (native_run L (bcastAsync_IBuffer (with_native L N) self buf root)) = []
      \<and> fst (native_run L (send_IBuffer (with_native L N) self buf dest tag)) = []
      \<and> fst (native_run L (recv_IBuffer (with_native L N) self buf source tag)) = [])
   \<and> (is_fundamental_v (remove_cv_t T)
        \<and> MpiTypeConverter F (remove_cv_t T) = Some dtype \<longrightarrow>
        (to_void_ptr T \<longrightarrow>
           native_run L (bcastValue F (with_native L N) self T root) =
             out_of_line L (Call_bcast (mComm self) Addr_value 1 dtype root)
         \<and> native_run L (recv_value F (with_native L N) self T source tag) =
             out_of_line L (Call_recv (mComm self) Addr_value 1 dtype source tag))
      \<and> (to_const_void_ptr T \<longrightarrow>
           native_run L (send_value F (with_native L N) self T dest tag) =
             out_of_line L (Call_send (mComm self) Addr_value 1 dtype dest tag)))
   \<and> (\<not> is_fundamental_v (remove_cv_t T) \<longrightarrow>
        (to_void_ptr T \<longrightarrow>
           native_run L (bcastValue F (with_native L N) self T root) =
             out_of_line L (Call_bcast (mComm self) Addr_value (sizeof T) kBYTE root)
         \<and> native_run L (recv_value F (with_native L N) self T source tag) =
             out_of_line L (Call_recv (mComm self) Addr_value (sizeof T) kBYTE source tag))
      \<and> (to_const_void_ptr T \<longrightarrow>
           native_run L (send_value F (with_native L N) self T dest tag) =
             out_of_line L (Call_send (mComm self) Addr_value (sizeof T) kBYTE dest tag)))
   \<and> length (filter is_communication
        (fst (bcast_vector F (with_native L N) V self T vec root))) \<le> 2
   \<and> (snd (bcast_vector F (with_native L N) V self T vec root) = Inr v \<longrightarrow>
        (is_fundamental_v (remove_cv_t T)
           \<and> MpiTypeConverter F (remove_cv_t T) = Some dtype \<longrightarrow>
         fst (native_run L (bcast_vector F (with_native L N) V self T vec root)) =
           [forwarded L (Call_getRank (mComm self)),
            forwarded L (Call_bcast (mComm self) Addr_vecSize 1 kINT64 root),
            forwarded L (Call_bcast (mComm self) Vec_data (length v) dtype root)])
      \<and> (\<not> is_fundamental_v (remove_cv_t T) \<longrightarrow>
         fst (native_run L (bcast_vector F (with_native L N) V self T vec root)) =
           [forwarded L (Call_getRank (mComm self)),
            forwarded L (Call_bcast (mComm self) Addr_vecSize 1 kINT64 root),
            forwarded L (Call_bcast (mComm self) Vec_data
               ((length v * sizeof T) mod 2 ^ 64) kBYTE root)]))"
proof -
  have members: "out_of_line L c =
     ([forwarded L c],
      MPICHECK (check_file L) (check_line L c) (return_code L (forwarded L c)))"
    "forwarded L c = Native c (map_option (getMpiDtype L) (tag_of c))"
    by (simp_all add: out_of_line_def forwarded_def)
  note for_vectors = native_vector(1) [where v = v and dtype = dtype]
    native_vector(2) [where v = v]
  show ?thesis
    by (simp add: members native_buffers native_buffers_gpu
        native_values_fundamental [where dtype = dtype] native_values_other
        bcast_vector_communications for_vectors)
qed

theorem wrapper_methods_forwarding_witness:
  "getMemoryType \<lparr>data = 4096, getSizeInBytes = 64, getMemoryType = Other_memory 0\<rparr> \<noteq> kGPU
   \<and> native_run
        \<lparr>getMpiDtype = (\<lambda>t. if t = kINT64 then 64 else 32), return_code = (\<lambda>c. 0),
         check_file = ''mpiUtils.cpp'', check_line = (\<lambda>c. 0)\<rparr>
        (send_IBuffer
           (with_native
              \<lparr>getMpiDtype = (\<lambda>t. if t = kINT64 then 64 else 32), return_code = (\<lambda>c. 0),
               check_file = ''mpiUtils.cpp'', check_line = (\<lambda>c. 0)\<rparr>
              \<lparr>fails = (\<lambda>c. None), getRank_result = 1,
               bcastAsync_result = \<lparr>mRequest = 0\<rparr>, recv_result = 0\<rparr>)
           \<lparr>mComm = 4, mFreeComm = False\<rparr>
           \<lparr>data = 4096, getSizeInBytes = 64, getMemoryType = Other_memory 0\<rparr> 1 7) =
       ([Native (Call_send 4 (Buf_data 4096) 64 kBYTE 1 7) (Some 32)], Inr ())
   \<and> snd (bcast_vector \<lparr>ENABLE_FP8 = False, ENABLE_BF16 = False\<rparr>
          (with_native
              \<lparr>getMpiDtype = (\<lambda>t. if t = kINT64 then 64 else 32), return_code = (\<lambda>c. 0),
               check_file = ''mpiUtils.cpp'', check_line = (\<lambda>c. 0)\<rparr>
              \<lparr>fails = (\<lambda>c. None), getRank_result = 1,
               bcastAsync_result = \<lparr>mRequest = 0\<rparr>, recv_result = 0\<rparr>)
          \<lparr>value_init = 0 :: int, max_size = 1000, allocates = (\<lambda>n. True),
           vecSize_after = (\<lambda>count dtype local. 3),
           storage_after = (\<lambda>count dtype local. [7, 8, 9])\<rparr>
          \<lparr>mComm = 4, mFreeComm = False\<rparr>
          (Qualified cv_none T_int32_t) [] 0) = Inr [7, 8, 9]
   \<and> is_fundamental_v (remove_cv_t (Qualified cv_none T_int32_t))
   \<and> MpiTypeConverter \<lparr>ENABLE_FP8 = False, ENABLE_BF16 = False\<rparr>
         (remove_cv_t (Qualified cv_none T_int32_t)) = Some kINT32
   \<and> fst (native_run
        \<lparr>getMpiDtype = (\<lambda>t. if t = kINT64 then 64 else 32), return_code = (\<lambda>c. 0),
         check_file = ''mpiUtils.cpp'', check_line = (\<lambda>c. 0)\<rparr>
        (bcast_vector \<lparr>ENABLE_FP8 = False, ENABLE_BF16 = False\<rparr>
          (with_native
              \<lparr>getMpiDtype = (\<lambda>t. if t = kINT64 then 64 else 32), return_code = (\<lambda>c. 0),
               check_file = ''mpiUtils.cpp'', check_line = (\<lambda>c. 0)\<rparr>
              \<lparr>fails = (\<lambda>c. None), getRank_result = 1,
               bcastAsync_result = \<lparr>mRequest = 0\<rparr>, recv_result = 0\<rparr>)
          \<lparr>value_init = 0 :: int, max_size = 1000, allocates = (\<lambda>n. True),
           vecSize_after = (\<lambda>count dtype local. 3),
           storage_after = (\<lambda>count dtype local. [7, 8, 9])\<rparr>
          \<lparr>mComm = 4, mFreeComm = False\<rparr>
          (Qualified cv_none T_int32_t) [] 0)) =
       [Native (Call_getRank 4) None,
        Native (Call_bcast 4 Addr_vecSize 1 kINT64 0) (Some 64),
        Native (Call_bcast 4 Vec_data 3 kINT32 0) (Some 32)]"
proof -
  let ?L = "\<lparr>getMpiDtype = (\<lambda>t. if t = kINT64 then 64 else 32), return_code = (\<lambda>c. 0),
             check_file = ''mpiUtils.cpp'', check_line = (\<lambda>c. 0)\<rparr>"
  let ?N = "\<lparr>fails = (\<lambda>c. None), getRank_result = 1,
             bcastAsync_result = \<lparr>mRequest = 0\<rparr>, recv_result = 0\<rparr>"
  let ?V = "\<lparr>value_init = 0 :: int, max_size = 1000, allocates = (\<lambda>n. True),
             vecSize_after = (\<lambda>count dtype local. 3),
             storage_after = (\<lambda>count dtype local. [7, 8, 9])\<rparr>"
  let ?F = "\<lparr>ENABLE_FP8 = False, ENABLE_BF16 = False\<rparr>"
  let ?self = "\<lparr>mComm = 4, mFreeComm = False\<rparr>"
  let ?buf = "\<lparr>data = 4096, getSizeInBytes = 64, getMemoryType = Other_memory 0\<rparr>"
  let ?T = "Qualified cv_none T_int32_t"
  have returns: "snd (bcast_vector ?F (with_native ?L ?N) ?V ?self ?T [] 0) = Inr [7, 8, 9]"
    by (simp add: bcast_vector_unfold vector_instantiable_def vector_resize_def
        store_elems_def Let_def with_native_def out_of_line_def MPICHECK_def
        TLLM_MPI_CHECK_def check_defs MPI_SUCCESS_def)
  have sent: "out_of_line ?L (Call_send 4 (Buf_data 4096) 64 kBYTE 1 7) =
      ([Native (Call_send 4 (Buf_data 4096) 64 kBYTE 1 7) (Some 32)], Inr ())"
    by (simp add: out_of_line_def forwarded_def MPICHECK_def TLLM_MPI_CHECK_def check_defs
        MPI_SUCCESS_def)
  have calls: "forwarded ?L (Call_getRank 4) = Native (Call_getRank 4) None"
    "forwarded ?L (Call_bcast 4 Addr_vecSize 1 kINT64 0) =
       Native (Call_bcast 4 Addr_vecSize 1 kINT64 0) (Some 64)"
    "forwarded ?L (Call_bcast 4 Vec_data 3 kINT32 0) =
       Native (Call_bcast 4 Vec_data 3 kINT32 0) (Some 32)"
    by (simp_all add: forwarded_def)
  from returns sent calls
    wrapper_methods_forwarding
      [where L = ?L and N = ?N and V = ?V and F = ?F and self = ?self and buf = ?buf
         and T = ?T and vec = "[]" and root = 0 and v = "[7, 8, 9]" and dtype = kINT32
         and dest = 1 and tag = 7]
  show ?thesis by simp
qed

subsection \<open>The broadcast of a vector\<close>



subsection \<open>The typed helpers\<close>

text \<open>
  C4. For every type \<open>T\<close> at which the helper has an instance (the address of the
  value converts to the pointer the out-of-line member takes): when \<open>T\<close> without its
  cv-qualifiers is fundamental, \<open>bcastValue\<close>, \<open>send\<close> and \<open>recv\<close> forward exactly one
  call, of one element with the tag \<open>MpiTypeConverter\<close> gives for that type; otherwise
  exactly one call, of \<open>sizeof(T)\<close> elements with the tag \<open>kBYTE\<close>.
\<close>

theorem typed_helpers_dispatch:
  "(to_void_ptr T \<and> is_fundamental_v (remove_cv_t T)
      \<and> MpiTypeConverter F (remove_cv_t T) = Some dtype \<longrightarrow>
        fst (bcastValue F N self T root) = [Call_bcast (mComm self) Addr_value 1 dtype root]
      \<and> fst (recv_value F N self T source tag) =
          [Call_recv (mComm self) Addr_value 1 dtype source tag])
   \<and> (to_const_void_ptr T \<and> is_fundamental_v (remove_cv_t T)
      \<and> MpiTypeConverter F (remove_cv_t T) = Some dtype \<longrightarrow>
        fst (send_value F N self T dest tag) =
          [Call_send (mComm self) Addr_value 1 dtype dest tag])
   \<and> (to_void_ptr T \<and> \<not> is_fundamental_v (remove_cv_t T) \<longrightarrow>
        fst (bcastValue F N self T root) =
          [Call_bcast (mComm self) Addr_value (sizeof T) kBYTE root]
      \<and> fst (recv_value F N self T source tag) =
          [Call_recv (mComm self) Addr_value (sizeof T) kBYTE source tag])
   \<and> (to_const_void_ptr T \<and> \<not> is_fundamental_v (remove_cv_t T) \<longrightarrow>
        fst (send_value F N self T dest tag) =
          [Call_send (mComm self) Addr_value (sizeof T) kBYTE dest tag])"
  by (simp add: bcastValue_def send_value_def recv_value_def member_defs run_defs)

theorem typed_helpers_dispatch_witness:
  "to_void_ptr (Qualified cv_none T_float)
   \<and> to_const_void_ptr (Qualified cv_const T_float)
   \<and> is_fundamental_v (remove_cv_t (Qualified cv_const T_float))
   \<and> MpiTypeConverter \<lparr>ENABLE_FP8 = False, ENABLE_BF16 = False\<rparr>
         (remove_cv_t (Qualified cv_const T_float)) = Some kFLOAT
   \<and> fst (bcastValue \<lparr>ENABLE_FP8 = False, ENABLE_BF16 = False\<rparr>
            \<lparr>fails = (\<lambda>c. None), getRank_result = 0,
        bcastAsync_result = \<lparr>mRequest = 0\<rparr>, recv_result = 0\<rparr>
            \<lparr>mComm = 4, mFreeComm = True\<rparr> (Qualified cv_none T_float) 0) =
       [Call_bcast 4 Addr_value 1 kFLOAT 0]
   \<and> fst (send_value \<lparr>ENABLE_FP8 = False, ENABLE_BF16 = False\<rparr>
            \<lparr>fails = (\<lambda>c. None), getRank_result = 0,
        bcastAsync_result = \<lparr>mRequest = 0\<rparr>, recv_result = 0\<rparr>
            \<lparr>mComm = 4, mFreeComm = True\<rparr> (Qualified cv_const T_float) 2 7) =
       [Call_send 4 Addr_value 1 kFLOAT 2 7]
   \<and> to_void_ptr (Qualified cv_none (Class_type ''Config'' 24))
   \<and> \<not> is_fundamental_v (remove_cv_t (Qualified cv_none (Class_type ''Config'' 24)))
   \<and> fst (recv_value \<lparr>ENABLE_FP8 = False, ENABLE_BF16 = False\<rparr>
            \<lparr>fails = (\<lambda>c. None), getRank_result = 0,
        bcastAsync_result = \<lparr>mRequest = 0\<rparr>, recv_result = 0\<rparr>
            \<lparr>mComm = 4, mFreeComm = True\<rparr>
            (Qualified cv_none (Class_type ''Config'' 24)) 1 7) =
       [Call_recv 4 Addr_value 24 kBYTE 1 7]"
proof -
  let ?F = "\<lparr>ENABLE_FP8 = False, ENABLE_BF16 = False\<rparr>"
  let ?N = "\<lparr>fails = (\<lambda>c. None), getRank_result = 0,
        bcastAsync_result = \<lparr>mRequest = 0\<rparr>, recv_result = 0\<rparr>"
  let ?self = "\<lparr>mComm = 4, mFreeComm = True\<rparr>"
  show ?thesis
    using
      typed_helpers_dispatch [where T = "Qualified cv_none T_float" and F = ?F and N = ?N
        and self = ?self and dtype = kFLOAT and root = 0]
      typed_helpers_dispatch [where T = "Qualified cv_const T_float" and F = ?F and N = ?N
        and self = ?self and dtype = kFLOAT and dest = 2 and tag = 7]
      typed_helpers_dispatch [where T = "Qualified cv_none (Class_type ''Config'' 24)"
        and F = ?F and N = ?N and self = ?self and source = 1 and tag = 7]
    by simp
qed

subsection \<open>The state of a communicator object\<close>

text \<open>
  C5. An \<open>MpiComm\<close> is its handle and its ownership flag and nothing more. Its
  destruction releases the communicator exactly when the flag is set, and releases
  nothing else. A call of any member other than a constructor, the destructor or
  move assignment leaves both fields as they were.
\<close>

theorem MpiComm_state_and_release:
  "self = \<lparr>mComm = mComm self, mFreeComm = mFreeComm self\<rparr>
   \<and> (mComm self \<in> set (MpiComm_destructor self)) = mFreeComm self
   \<and> set (MpiComm_destructor self) \<subseteq> {mComm self}
   \<and> (scope_of d = Class_MpiComm
        \<and> kind_of d \<noteq> Constructor \<and> kind_of d \<noteq> Destructor
        \<and> kind_of d \<noteq> Move_assignment \<longrightarrow>
      fields_after body d self = self)"
proof -
  have frame: "fields_after body d self = self"
    if "scope_of d = Class_MpiComm" "kind_of d \<noteq> Constructor" "kind_of d \<noteq> Destructor"
      "kind_of d \<noteq> Move_assignment"
    using that by (cases d) (simp_all add: fields_after_def)
  have release: "(mComm self \<in> set (MpiComm_destructor self)) = mFreeComm self"
    "set (MpiComm_destructor self) \<subseteq> {mComm self}"
    by (auto simp: MpiComm_destructor_def)
  from frame release show ?thesis by simp
qed

theorem MpiComm_state_and_release_witness:
  "scope_of D_bcast_vector = Class_MpiComm
   \<and> kind_of D_bcast_vector \<noteq> Constructor \<and> kind_of D_bcast_vector \<noteq> Destructor
   \<and> kind_of D_bcast_vector \<noteq> Move_assignment
   \<and> fields_after (\<lambda>d c. c\<lparr>mFreeComm := False\<rparr>) D_bcast_vector
        \<lparr>mComm = 4, mFreeComm = True\<rparr> = \<lparr>mComm = 4, mFreeComm = True\<rparr>
   \<and> MpiComm_destructor \<lparr>mComm = 4, mFreeComm = True\<rparr> = [4]
   \<and> MpiComm_destructor \<lparr>mComm = 4, mFreeComm = False\<rparr> = []"
  using MpiComm_state_and_release
    [where d = D_bcast_vector and self = "\<lparr>mComm = 4, mFreeComm = True\<rparr>"
       and body = "\<lambda>d c. c\<lparr>mFreeComm := False\<rparr>"]
  by (simp add: MpiComm_destructor_def)

subsection \<open>Buffers on the GPU\<close>

text \<open>
  C6. For a buffer whose memory type is \<open>kGPU\<close>, the buffer overloads of
  \<open>bcastAsync\<close>, \<open>send\<close> and \<open>recv\<close> fail their check before any call is made. The
  blocking \<open>bcast\<close> of a buffer has no such check: whatever the memory type, it
  forwards the buffer's storage and size in bytes with the tag \<open>kBYTE\<close>.
\<close>

theorem gpu_buffer_checks:
  "(getMemoryType buf = kGPU \<longrightarrow>
      bcastAsync_IBuffer N self buf root =
        ([], Inl (Abort ''buf.getMemoryType() != runtime::MemoryType::kGPU'' []))
    \<and> send_IBuffer N self buf dest tag =
        ([], Inl (Abort ''buf.getMemoryType() != runtime::MemoryType::kGPU'' []))
    \<and> recv_IBuffer N self buf source tag =
        ([], Inl (Abort ''buf.getMemoryType() != runtime::MemoryType::kGPU'' [])))
   \<and> fst (bcast_IBuffer N self buf root) =
        [Call_bcast (mComm self) (Buf_data (data buf)) (getSizeInBytes buf) kBYTE root]"
  by (simp add: bcastAsync_IBuffer_def send_IBuffer_def recv_IBuffer_def bcast_IBuffer_def
      member_defs run_defs check_defs)

theorem gpu_buffer_checks_witness:
  "getMemoryType \<lparr>data = 4096, getSizeInBytes = 64, getMemoryType = kGPU\<rparr> = kGPU
   \<and> fst (bcastAsync_IBuffer
            \<lparr>fails = (\<lambda>c. None), getRank_result = 0,
        bcastAsync_result = \<lparr>mRequest = 0\<rparr>, recv_result = 0\<rparr>
            \<lparr>mComm = 4, mFreeComm = True\<rparr>
            \<lparr>data = 4096, getSizeInBytes = 64, getMemoryType = kGPU\<rparr> 0) = []
   \<and> fst (send_IBuffer
            \<lparr>fails = (\<lambda>c. None), getRank_result = 0,
        bcastAsync_result = \<lparr>mRequest = 0\<rparr>, recv_result = 0\<rparr>
            \<lparr>mComm = 4, mFreeComm = True\<rparr>
            \<lparr>data = 4096, getSizeInBytes = 64, getMemoryType = kGPU\<rparr> 1 7) = []
   \<and> fst (recv_IBuffer
            \<lparr>fails = (\<lambda>c. None), getRank_result = 0,
        bcastAsync_result = \<lparr>mRequest = 0\<rparr>, recv_result = 0\<rparr>
            \<lparr>mComm = 4, mFreeComm = True\<rparr>
            \<lparr>data = 4096, getSizeInBytes = 64, getMemoryType = kGPU\<rparr> 1 7) = []
   \<and> fst (bcast_IBuffer
            \<lparr>fails = (\<lambda>c. None), getRank_result = 0,
        bcastAsync_result = \<lparr>mRequest = 0\<rparr>, recv_result = 0\<rparr>
            \<lparr>mComm = 4, mFreeComm = True\<rparr>
            \<lparr>data = 4096, getSizeInBytes = 64, getMemoryType = kGPU\<rparr> 0) =
       [Call_bcast 4 (Buf_data 4096) 64 kBYTE 0]"
  using gpu_buffer_checks
    [where buf = "\<lparr>data = 4096, getSizeInBytes = 64, getMemoryType = kGPU\<rparr>"
       and self = "\<lparr>mComm = 4, mFreeComm = True\<rparr>"
       and N = "\<lparr>fails = (\<lambda>c. None), getRank_result = 0,
        bcastAsync_result = \<lparr>mRequest = 0\<rparr>, recv_result = 0\<rparr>"
       and root = 0 and dest = 1 and source = 1 and tag = 7]
  by simp

subsection \<open>The table of type tags\<close>

text \<open>
  C7. \<open>MpiTypeConverter\<close> has a value at exactly the supported types (the twelve, and
  \<open>__nv_fp8_e4m3\<close> and \<open>__nv_bfloat16\<close> when their switches are on), one tag each, and
  no two supported types have the same tag.
\<close>

theorem MpiTypeConverter_injective:
  "(T \<in> set (supported_types F)) = (\<exists>t. MpiTypeConverter F T = Some t)
   \<and> inj_on (MpiTypeConverter F) (set (supported_types F))
   \<and> map (MpiTypeConverter \<lparr>ENABLE_FP8 = True, ENABLE_BF16 = True\<rparr>)
        (supported_types \<lparr>ENABLE_FP8 = True, ENABLE_BF16 = True\<rparr>) =
      map Some [kBYTE, kHALF, kFLOAT, kDOUBLE, kBOOL, kINT8, kUINT8, kINT32, kUINT32,
                kINT64, kUINT64, kCHAR, kFP8, kBF16]"
proof -
  have dom: "(T \<in> set (supported_types F)) = (\<exists>t. MpiTypeConverter F T = Some t)"
    using MpiTypeConverter_supported [of F T] by auto
  have inj: "inj_on (MpiTypeConverter F) (set (supported_types F))"
  proof (rule inj_onI)
    fix a b
    assume a: "a \<in> set (supported_types F)"
      and eq: "MpiTypeConverter F a = MpiTypeConverter F b"
    from a obtain t where ta: "MpiTypeConverter F a = Some t"
      using MpiTypeConverter_supported [of F a] by auto
    with eq have tb: "MpiTypeConverter F b = Some t" by simp
    from MpiTypeConverter_cases [OF ta] MpiTypeConverter_cases [OF tb]
    show "a = b" by simp
  qed
  have table: "map (MpiTypeConverter \<lparr>ENABLE_FP8 = True, ENABLE_BF16 = True\<rparr>)
        (supported_types \<lparr>ENABLE_FP8 = True, ENABLE_BF16 = True\<rparr>) =
      map Some [kBYTE, kHALF, kFLOAT, kDOUBLE, kBOOL, kINT8, kUINT8, kINT32, kUINT32,
                kINT64, kUINT64, kCHAR, kFP8, kBF16]"
    by (simp add: supported_types_def)
  from dom inj table show ?thesis by blast
qed

subsection \<open>The thread-support level\<close>

text \<open>
  C8. \<open>initialize\<close> is the one declared function that takes a thread-support level;
  called without an argument it runs with \<open>THREAD_FUNNELED\<close>, otherwise with the
  argument; and each enumerator of \<open>MpiThreadSupport\<close> has the value of the native
  constant of its name.
\<close>

theorem thread_support_at_initialize:
  "(''MpiThreadSupport'' \<in> set (parameters d)) = (d = D_initialize)
   \<and> initialize_threadMode None = THREAD_FUNNELED
   \<and> initialize_threadMode (Some threadMode) = threadMode
   \<and> MpiThreadSupport_value H THREAD_SINGLE = MPI_THREAD_SINGLE H
   \<and> MpiThreadSupport_value H THREAD_FUNNELED = MPI_THREAD_FUNNELED H
   \<and> MpiThreadSupport_value H THREAD_SERIALIZED = MPI_THREAD_SERIALIZED H
   \<and> MpiThreadSupport_value H THREAD_MULTIPLE = MPI_THREAD_MULTIPLE H"
proof -
  have "(''MpiThreadSupport'' \<in> set (parameters d)) = (d = D_initialize)"
    by (cases d) simp_all
  then show ?thesis by simp
qed

subsection \<open>The module file\<close>

text \<open>
  C9. With the template file present, the script leaves in \<open>MODULE.bazel\<close> what
  \<open>envsubst\<close> makes of the template's text, and leaves the template, like every
  other file, as it was.
\<close>

theorem MODULE_bazel_from_template:
  assumes "files sh ''toolchains/ci_workspaces/MODULE.bazel.tmpl'' = Some template"
  shows "files (write_module_file envsubst sh) ''MODULE.bazel'' = Some (envsubst template)
       \<and> files (write_module_file envsubst sh) ''toolchains/ci_workspaces/MODULE.bazel.tmpl''
           = Some template
       \<and> (path \<noteq> ''MODULE.bazel'' \<longrightarrow>
            files (write_module_file envsubst sh) path = files sh path)
       \<and> stdout (write_module_file envsubst sh) = stdout sh @ [envsubst template]"
  using assms
  by (simp add: write_module_file_def cat_MODULE_bazel_def generate_MODULE_bazel_def cat_def)

theorem MODULE_bazel_from_template_witness:
  "files \<lparr>files = [''toolchains/ci_workspaces/MODULE.bazel.tmpl'' \<mapsto> ''v=$V''],
           stdout = []\<rparr> ''toolchains/ci_workspaces/MODULE.bazel.tmpl'' = Some ''v=$V''
   \<and> files (write_module_file (\<lambda>text. take 2 text @ ''2.5'')
        \<lparr>files = [''toolchains/ci_workspaces/MODULE.bazel.tmpl'' \<mapsto> ''v=$V''],
         stdout = []\<rparr>) ''MODULE.bazel'' = Some ''v=2.5''
   \<and> files (write_module_file (\<lambda>text. take 2 text @ ''2.5'')
        \<lparr>files = [''toolchains/ci_workspaces/MODULE.bazel.tmpl'' \<mapsto> ''v=$V''],
         stdout = []\<rparr>) ''toolchains/ci_workspaces/MODULE.bazel.tmpl'' = Some ''v=$V''"
proof -
  let ?sh = "\<lparr>files = [''toolchains/ci_workspaces/MODULE.bazel.tmpl'' \<mapsto> ''v=$V''],
              stdout = []\<rparr>"
  have present: "files ?sh ''toolchains/ci_workspaces/MODULE.bazel.tmpl'' = Some ''v=$V''"
    by simp
  from MODULE_bazel_from_template [OF present, of "\<lambda>text. take 2 text @ ''2.5''"] present
  show ?thesis by simp
qed

subsection \<open>Equality of communicators\<close>

text \<open>
  C10. \<open>a == b\<close> holds exactly when the two \<open>mComm\<close> handles are equal, whatever the
  ownership flags are, and \<open>a != b\<close> holds exactly when \<open>a == b\<close> does not.
\<close>

theorem MpiComm_equality_by_handle:
  "MpiComm_eq a b = (mComm a = mComm b)
   \<and> MpiComm_eq (a\<lparr>mFreeComm := f\<rparr>) (a\<lparr>mFreeComm := g\<rparr>)
   \<and> MpiComm_neq a b = (\<not> MpiComm_eq a b)"
  by (auto simp: MpiComm_eq_def MpiComm_neq_def)

end
